theory Spec2Isabelle
  imports Main "HOL-Library.AList" "HOL-Library.Char_ord" "HOL-Library.List_Lexorder"
begin

section \<open>Strings as the interpreter uses them\<close>

text \<open>
  A Python \<open>str\<close> is modelled as a \<open>string\<close>; a \<open>char\<close> stands for a code point
  below 256. \<open>is_space\<close> lists the code points of that range for which Python's
  \<open>str.isspace\<close> holds; they are the ones \<open>str.strip()\<close> removes.
\<close>

definition is_space :: "char \<Rightarrow> bool" where
  "is_space c = (of_char c \<in> {9, 10, 11, 12, 13, 28, 29, 30, 31, 32, 133, 160 :: nat})"

definition strip_chars :: "(char \<Rightarrow> bool) \<Rightarrow> string \<Rightarrow> string" where
  "strip_chars p s = rev (dropWhile p (rev (dropWhile p s)))"

definition strip :: "string \<Rightarrow> string" where
  "strip s = strip_chars is_space s"

definition dquote :: char where
  "dquote = CHR 0x22"

definition squote :: char where
  "squote = CHR 0x27"

fun join_str :: "string \<Rightarrow> string list \<Rightarrow> string" where
  "join_str sep [] = []"
| "join_str sep [x] = x"
| "join_str sep (x # y # ys) = x @ sep @ join_str sep (y # ys)"

text \<open>\<open>s.split("=", 1)\<close> for an \<open>s\<close> that contains \<open>=\<close>.\<close>

definition split_eq :: "string \<Rightarrow> string \<times> string" where
  "split_eq s = (takeWhile (\<lambda>c. c \<noteq> CHR ''='') s, tl (dropWhile (\<lambda>c. c \<noteq> CHR ''='') s))"

section \<open>Tokenizer: \<open>PythonTerminal.parse_command\<close>\<close>

text \<open>
  The \<open>while\<close> loop of \<open>parse_command\<close>, one character per step. The arguments after
  the remaining input are the loop variables \<open>tokens\<close>, \<open>current_token\<close>, \<open>in_quotes\<close>
  and \<open>quote_char\<close> (\<open>None\<close> as in the source).
\<close>

fun parse_loop :: "string \<Rightarrow> string list \<Rightarrow> string \<Rightarrow> bool \<Rightarrow> char option \<Rightarrow> string list" where
  "parse_loop [] tokens current_token in_quotes quote_char =
     (if current_token \<noteq> [] then tokens @ [current_token] else tokens)"
| "parse_loop (c # cs) tokens current_token in_quotes quote_char =
     (if (c = dquote \<or> c = squote) \<and> \<not> in_quotes then
        parse_loop cs tokens current_token True (Some c)
      else if Some c = quote_char \<and> in_quotes then
        parse_loop cs tokens current_token False None
      else if c = CHR '' '' \<and> \<not> in_quotes then
        (if current_token \<noteq> [] then parse_loop cs (tokens @ [current_token]) [] in_quotes quote_char
         else parse_loop cs tokens current_token in_quotes quote_char)
      else parse_loop cs tokens (current_token @ [c]) in_quotes quote_char)"

definition parse_command :: "string \<Rightarrow> string list" where
  "parse_command command_line =
     (if strip command_line = [] then [] else parse_loop command_line [] [] False None)"

definition newline :: string where
  "newline = [CHR 0x0A]"

text \<open>Decimal rendering of a number and right alignment, for the format \<open>{i:3}\<close>.\<close>

fun show_nat :: "nat \<Rightarrow> string" where
  "show_nat n =
     (if n < 10 then [char_of (48 + n)] else show_nat (n div 10) @ [char_of (48 + n mod 10)])"

definition rjust :: "nat \<Rightarrow> string \<Rightarrow> string" where
  "rjust w s = replicate (w - length s) (CHR '' '') @ s"

section \<open>Exceptions\<close>

text \<open>
  The exception classes that the handlers of the source tell apart, with the message
  that \<open>str(e)\<close> gives. \<open>TimeoutExpired\<close> and \<open>FileNotFoundError\<close> are subclasses of
  \<open>Exception\<close>, and every other subclass of it is \<open>OtherException\<close>. \<open>KeyboardInterrupt\<close>
  derives from \<open>BaseException\<close> only: a clause \<open>except Exception\<close> does not catch it.
  Nothing in the source calls \<open>sys.exit\<close>, so no other class of that kind arises. An
  interrupt is modelled where the interpreter waits, in the operations of the platform.
\<close>

datatype exception_class = TimeoutExpired | FileNotFoundError | OtherException | KeyboardInterrupt

datatype py_exception = Raised exception_class string

fun str_exc :: "py_exception \<Rightarrow> string" where
  "str_exc (Raised cls msg) = msg"

fun is_Exception :: "py_exception \<Rightarrow> bool" where
  "is_Exception (Raised cls msg) = (cls \<noteq> KeyboardInterrupt)"

section \<open>Session state and host\<close>

text \<open>
  The fields of \<open>PythonTerminal\<close>. The two dictionaries are association lists in
  insertion order, as Python keeps them: \<open>AList.update\<close> overwrites a key in place or
  appends a new one, \<open>AList.delete\<close> is \<open>del\<close>. The field \<open>processes\<close> is never
  used by the source and is left out.
\<close>

record terminal =
  current_dir :: string
  command_history :: "string list"
  environment_vars :: "(string \<times> string) list"
  aliases :: "(string \<times> string) list"

text \<open>
  What the interpreter reaches through \<open>os\<close>: the environment of the process
  (\<open>os.environ\<close>), its working directory, and the file system and process table, whose
  type is left open.
\<close>

record 'fs host =
  os_environ :: "(string \<times> string) list"
  os_cwd :: string
  files :: 'fs

datatype builtin =
  Cd | Pwd | Ls | Mkdir | Rmdir | Rm | Cp | Mv | Cat | Echo | Touch | Find | Grep | Ps | Top
  | Kill | Env | Export | History | Clear | Exit | Help | Whoami | Date | Uptime | Df | Free
  | Alias | Unalias

text \<open>
  The library and operating-system operations the core calls. \<open>expand_tilde\<close> is
  \<open>os.path.expanduser\<close> on a path that starts with \<open>~\<close>, where it consults \<open>HOME\<close> and
  the user database and may raise. \<open>chdir_error\<close> and \<open>environ_error\<close> say when
  \<open>os.chdir\<close> and the assignment \<open>os.environ[key] = value\<close> raise. \<open>passthrough\<close> stands for the bodies of the built-ins that only relay file-system
  and process-metrics primitives (they read the session and never write it), and
  \<open>subprocess_run\<close> for \<open>subprocess.run\<close> with its 30 second bound, giving the captured
  standard output and standard error of the child.
\<close>

record 'fs platform =
  expand_tilde :: "'fs host \<Rightarrow> string \<Rightarrow> py_exception + string"
  isabs :: "string \<Rightarrow> bool"
  path_join :: "string \<Rightarrow> string \<Rightarrow> string"
  abspath :: "'fs host \<Rightarrow> string \<Rightarrow> string"
  isdir :: "'fs host \<Rightarrow> string \<Rightarrow> bool"
  chdir_error :: "'fs host \<Rightarrow> string \<Rightarrow> py_exception option"
  environ_error :: "string \<Rightarrow> string \<Rightarrow> py_exception option"
  passthrough :: "builtin \<Rightarrow> string list \<Rightarrow> terminal \<Rightarrow> 'fs host \<Rightarrow> (py_exception + string) \<times> 'fs"
  subprocess_run :: "string list \<Rightarrow> string \<Rightarrow> 'fs host \<Rightarrow> (py_exception + string \<times> string) \<times> 'fs"

text \<open>\<open>PythonTerminal.__init__\<close>.\<close>

definition init_terminal :: "'fs host \<Rightarrow> terminal" where
  "init_terminal h =
     \<lparr>current_dir = os_cwd h, command_history = [], environment_vars = os_environ h, aliases = []\<rparr>"

definition builtin_table :: "(string \<times> builtin) list" where
  "builtin_table =
     [(''cd'', Cd), (''pwd'', Pwd), (''ls'', Ls), (''dir'', Ls), (''mkdir'', Mkdir),
      (''rmdir'', Rmdir), (''rm'', Rm), (''cp'', Cp), (''mv'', Mv), (''cat'', Cat),
      (''echo'', Echo), (''touch'', Touch), (''find'', Find), (''grep'', Grep), (''ps'', Ps),
      (''top'', Top), (''kill'', Kill), (''env'', Env), (''export'', Export),
      (''history'', History), (''clear'', Clear), (''exit'', Exit), (''help'', Help),
      (''whoami'', Whoami), (''date'', Date), (''uptime'', Uptime), (''df'', Df),
      (''free'', Free), (''alias'', Alias), (''unalias'', Unalias)]"

definition builtin_commands :: "string \<Rightarrow> builtin option" where
  "builtin_commands = map_of builtin_table"

section \<open>Built-in commands that read or write the session\<close>

text \<open>
  \<open>os.path.expanduser\<close> returns a path that does not start with \<open>~\<close> as it is, on
  POSIX and on Windows alike.
\<close>

definition expanduser :: "'fs platform \<Rightarrow> 'fs host \<Rightarrow> string \<Rightarrow> py_exception + string" where
  "expanduser P h path =
     (if path = [] \<or> hd path \<noteq> CHR ''~'' then Inr path else expand_tilde P h path)"

text \<open>
  \<open>cmd_cd\<close>. \<open>cd_target\<close> is the value of \<open>target\<close> on entry to the test
  \<open>os.path.exists(target) and os.path.isdir(target)\<close>, which \<open>isdir\<close> stands for, or the
  exception that one of the two calls of \<open>os.path.expanduser\<close> raises; both calls are
  outside the \<open>try\<close> block, so that exception leaves \<open>cmd_cd\<close>. Inside the block,
  \<open>except Exception\<close> turns an exception of \<open>os.chdir\<close> into text, after the session has
  been updated.
\<close>

definition cd_target :: "'fs platform \<Rightarrow> string list \<Rightarrow> terminal \<Rightarrow> 'fs host \<Rightarrow> py_exception + string" where
  "cd_target P args t h =
     (case (if args = [] then expanduser P h ''~''
            else if hd args = ''-'' then
              Inr (case map_of (environment_vars t) ''OLDPWD'' of
                     Some v \<Rightarrow> v
                   | None \<Rightarrow> current_dir t)
            else Inr (hd args)) of
        Inl e \<Rightarrow> Inl e
      | Inr target0 \<Rightarrow>
          (case expanduser P h target0 of
             Inl e \<Rightarrow> Inl e
           | Inr target1 \<Rightarrow>
               Inr (abspath P h
                      (if \<not> isabs P target1 then path_join P (current_dir t) target1
                       else target1))))"

definition cmd_cd :: "'fs platform \<Rightarrow> string list \<Rightarrow> terminal \<Rightarrow> 'fs host \<Rightarrow> (py_exception + string) \<times> terminal \<times> 'fs host" where
  "cmd_cd P args t h =
     (case cd_target P args t h of
        Inl e \<Rightarrow> (Inl e, t, h)
      | Inr target \<Rightarrow>
          if isdir P h target then
            (let t' = t\<lparr>environment_vars := AList.update ''OLDPWD'' (current_dir t) (environment_vars t),
                        current_dir := target\<rparr>
             in case chdir_error P h target of
                  None \<Rightarrow> (Inr [], t', h\<lparr>os_cwd := target\<rparr>)
                | Some e \<Rightarrow> (if is_Exception e then Inr (''cd: '' @ str_exc e) else Inl e, t', h))
          else (Inr (''cd: '' @ target @ '': No such file or directory''), t, h))"

definition cmd_pwd :: "terminal \<Rightarrow> string" where
  "cmd_pwd t = current_dir t"

definition cmd_echo :: "string list \<Rightarrow> string" where
  "cmd_echo args = join_str '' '' args"

definition cmd_env :: "string list \<Rightarrow> terminal \<Rightarrow> string" where
  "cmd_env args t =
     (if args = [] then join_str newline (map (\<lambda>(k, v). k @ ''='' @ v) (environment_vars t))
      else (case map_of (environment_vars t) (hd args) of
              Some v \<Rightarrow> v
            | None \<Rightarrow> ''env: '' @ hd args @ '': not found''))"

fun export_loop :: "'fs platform \<Rightarrow> string list \<Rightarrow> terminal \<Rightarrow> 'fs host \<Rightarrow> (py_exception + string) \<times> terminal \<times> 'fs host" where
  "export_loop P [] t h = (Inr [], t, h)"
| "export_loop P (arg # rest) t h =
     (if CHR ''='' \<in> set arg then
        (let key = fst (split_eq arg);
             val = snd (split_eq arg);
             t' = t\<lparr>environment_vars := AList.update key val (environment_vars t)\<rparr>
         in case environ_error P key val of
              Some e \<Rightarrow> (Inl e, t', h)
            | None \<Rightarrow> export_loop P rest t' (h\<lparr>os_environ := AList.update key val (os_environ h)\<rparr>))
      else (Inr (''export: invalid format '' @ [squote] @ arg @ [squote]), t, h))"

definition cmd_export :: "'fs platform \<Rightarrow> string list \<Rightarrow> terminal \<Rightarrow> 'fs host \<Rightarrow> (py_exception + string) \<times> terminal \<times> 'fs host" where
  "cmd_export P args t h =
     (if args = [] then (Inr ''export: missing operand'', t, h) else export_loop P args t h)"

text \<open>
  The rows that \<open>cmd_history\<close> shows: \<open>enumerate(self.command_history[-20:], 1)\<close>.
\<close>

definition history_rows :: "string list \<Rightarrow> (nat \<times> string) list" where
  "history_rows hist =
     (let recent = drop (length hist - 20) hist in zip [1 ..< Suc (length recent)] recent)"

definition cmd_history :: "terminal \<Rightarrow> string" where
  "cmd_history t =
     (if command_history t = [] then []
      else join_str newline
             (map (\<lambda>(i, cmd). rjust 3 (show_nat i) @ '' '' @ cmd) (history_rows (command_history t))))"

definition cmd_clear :: string where
  "cmd_clear = [CHR 0x1B] @ ''[2J'' @ [CHR 0x1B] @ ''[H''"

definition cmd_exit :: string where
  "cmd_exit = ''EXIT''"

definition cmd_help :: string where
  "cmd_help = ''Available commands:'' @ newline @ join_str '', '' (sort (map fst builtin_table))"

definition cmd_whoami :: "'fs host \<Rightarrow> string" where
  "cmd_whoami h =
     (case map_of (os_environ h) ''USER'' of
        Some v \<Rightarrow> v
      | None \<Rightarrow> (case map_of (os_environ h) ''USERNAME'' of Some v \<Rightarrow> v | None \<Rightarrow> ''user''))"

fun alias_loop :: "string list \<Rightarrow> terminal \<Rightarrow> string \<times> terminal" where
  "alias_loop [] t = ([], t)"
| "alias_loop (arg # rest) t =
     (if CHR ''='' \<in> set arg then
        alias_loop rest
          (t\<lparr>aliases := AList.update (fst (split_eq arg))
                          (strip_chars (\<lambda>c. c = squote \<or> c = dquote) (snd (split_eq arg)))
                          (aliases t)\<rparr>)
      else (''alias: invalid format '' @ [squote] @ arg @ [squote], t))"

definition cmd_alias :: "string list \<Rightarrow> terminal \<Rightarrow> string \<times> terminal" where
  "cmd_alias args t =
     (if args = [] then
        (join_str newline (map (\<lambda>(k, v). k @ ''='' @ [squote] @ v @ [squote]) (aliases t)), t)
      else alias_loop args t)"

fun unalias_loop :: "string list \<Rightarrow> terminal \<Rightarrow> string \<times> terminal" where
  "unalias_loop [] t = ([], t)"
| "unalias_loop (a # rest) t =
     (if map_of (aliases t) a \<noteq> None then
        unalias_loop rest (t\<lparr>aliases := AList.delete a (aliases t)\<rparr>)
      else (''unalias: '' @ a @ '': not found'', t))"

definition cmd_unalias :: "string list \<Rightarrow> terminal \<Rightarrow> string \<times> terminal" where
  "cmd_unalias args t =
     (if args = [] then (''unalias: missing operand'', t) else unalias_loop args t)"

section \<open>External commands: \<open>execute_external_command\<close>\<close>

definition execute_external_command :: "'fs platform \<Rightarrow> string \<Rightarrow> string list \<Rightarrow> terminal \<Rightarrow> 'fs host \<Rightarrow> (py_exception + string) \<times> 'fs" where
  "execute_external_command P cmd args t h =
     (case subprocess_run P (cmd # args) (current_dir t) h of
        (Inr (out, err), fs') \<Rightarrow>
          (Inr (strip (if err \<noteq> [] then out @ newline @ ''Error: '' @ err else out)), fs')
      | (Inl (Raised TimeoutExpired msg), fs') \<Rightarrow> (Inr ''Error: Command timed out'', fs')
      | (Inl (Raised FileNotFoundError msg), fs') \<Rightarrow>
          (Inr (''Error: Command '' @ [squote] @ cmd @ [squote] @ '' not found''), fs')
      | (Inl (Raised OtherException msg), fs') \<Rightarrow> (Inr (''Error: '' @ msg), fs')
      | (Inl (Raised KeyboardInterrupt msg), fs') \<Rightarrow> (Inl (Raised KeyboardInterrupt msg), fs'))"

section \<open>Dispatch: \<open>execute_command\<close>\<close>

text \<open>
  Where a tokenized line goes: lines 108 to 120 of \<open>execute_command\<close>. The head token is
  looked up once in the alias table, the result once in the table of built-ins.
\<close>

datatype route = Builtin builtin "string list" | External string "string list"

definition resolve :: "terminal \<Rightarrow> string list \<Rightarrow> route" where
  "resolve t tokens =
     (let cmd = hd tokens;
          args = tl tokens;
          cmd' = (case map_of (aliases t) cmd of Some r \<Rightarrow> r | None \<Rightarrow> cmd)
      in case builtin_commands cmd' of
           Some b \<Rightarrow> Builtin b args
         | None \<Rightarrow> External cmd' args)"

definition run_builtin :: "'fs platform \<Rightarrow> builtin \<Rightarrow> string list \<Rightarrow> terminal \<Rightarrow> 'fs host \<Rightarrow> (py_exception + string) \<times> terminal \<times> 'fs host" where
  "run_builtin P b args t h =
     (if b = Cd then cmd_cd P args t h
      else if b = Pwd then (Inr (cmd_pwd t), t, h)
      else if b = Echo then (Inr (cmd_echo args), t, h)
      else if b = Env then (Inr (cmd_env args t), t, h)
      else if b = Export then cmd_export P args t h
      else if b = History then (Inr (cmd_history t), t, h)
      else if b = Clear then (Inr cmd_clear, t, h)
      else if b = Exit then (Inr cmd_exit, t, h)
      else if b = Help then (Inr cmd_help, t, h)
      else if b = Whoami then (Inr (cmd_whoami h), t, h)
      else if b = Alias then (case cmd_alias args t of (out, t') \<Rightarrow> (Inr out, t', h))
      else if b = Unalias then (case cmd_unalias args t of (out, t') \<Rightarrow> (Inr out, t', h))
      else (case passthrough P b args t h of (res, fs') \<Rightarrow> (res, t, h\<lparr>files := fs'\<rparr>)))"

text \<open>The body of the \<open>try\<close> block of \<open>execute_command\<close>; \<open>Inl\<close> is a raised exception.\<close>

definition execute_body :: "'fs platform \<Rightarrow> string \<Rightarrow> terminal \<Rightarrow> 'fs host \<Rightarrow> (py_exception + string) \<times> terminal \<times> 'fs host" where
  "execute_body P command_line t h =
     (let t1 = (if strip command_line \<noteq> [] then
                  t\<lparr>command_history := command_history t @ [command_line]\<rparr>
                else t);
          tokens = parse_command command_line
      in if tokens = [] then (Inr [], t1, h)
         else (case resolve t1 tokens of
                 Builtin b args \<Rightarrow> run_builtin P b args t1 h
               | External cmd args \<Rightarrow>
                   (case execute_external_command P cmd args t1 h of
                      (res, fs') \<Rightarrow> (res, t1, h\<lparr>files := fs'\<rparr>))))"

text \<open>
  \<open>execute_command\<close> with its clause \<open>except Exception\<close>. \<open>Inl\<close> in its result is an
  exception that the clause does not catch and that leaves the function.
\<close>

definition execute_command :: "'fs platform \<Rightarrow> string \<Rightarrow> terminal \<Rightarrow> 'fs host \<Rightarrow> (py_exception + string) \<times> terminal \<times> 'fs host" where
  "execute_command P command_line t h =
     (case execute_body P command_line t h of
        (Inr out, t', h') \<Rightarrow> (Inr out, t', h')
      | (Inl e, t', h') \<Rightarrow>
          (if is_Exception e then Inr (''Error: '' @ str_exc e) else Inl e, t', h'))"

section \<open>The driving loop: \<open>run\<close>\<close>

text \<open>
  The loop of \<open>run\<close> over the lines that \<open>input\<close> delivers; the end of the list is the
  end of input (\<open>EOFError\<close>). The result holds what was printed, the final state and how
  the loop ended. An exception that leaves \<open>execute_command\<close> meets the clauses
  \<open>except KeyboardInterrupt\<close> and \<open>except Exception\<close> of the loop, which print and go on.
  The banner and the prompt are not part of the model.
\<close>

datatype ending = Exited | EndOfInput

fun run_loop :: "'fs platform \<Rightarrow> string list \<Rightarrow> terminal \<Rightarrow> 'fs host \<Rightarrow> string list \<Rightarrow> string list \<times> terminal \<times> 'fs host \<times> ending" where
  "run_loop P [] t h printed = (printed @ [newline @ ''Goodbye!''], t, h, EndOfInput)"
| "run_loop P (l # ls) t h printed =
     (if strip l = [] then run_loop P ls t h printed
      else (case execute_command P (strip l) t h of
              (Inl e, t', h') \<Rightarrow>
                if is_Exception e then run_loop P ls t' h' (printed @ [''Terminal error: '' @ str_exc e])
                else run_loop P ls t' h' (printed @ [newline @ ''^C''])
            | (Inr output, t', h') \<Rightarrow>
                if output = ''EXIT'' then (printed @ [''Goodbye!''], t', h', Exited)
                else if output \<noteq> [] then run_loop P ls t' h' (printed @ [output])
                else run_loop P ls t' h' printed))"

section \<open>A concrete host\<close>

text \<open>
  A POSIX host to run the model on. Its file system is a list of the directories that
  exist and a list of those that the process may not enter; no program is installed, so
  \<open>subprocess.run\<close> raises \<open>FileNotFoundError\<close>. \<open>posix_abspath\<close> agrees with
  \<open>os.path.abspath\<close> on absolute paths without \<open>.\<close>, \<open>..\<close>, empty components or a
  trailing slash. \<open>posix_expand_tilde\<close> is \<open>posixpath.expanduser\<close> from its test for
  \<open>~\<close> on, with an empty user database: \<open>~\<close> alone stands for \<open>HOME\<close>, a user name is
  not found, and a name with a null character makes \<open>pwd.getpwnam\<close> raise \<open>ValueError\<close>.
  \<open>interrupted\<close> is the same platform with a user who interrupts every child process.
\<close>

record posix_fs =
  directories :: "string list"
  locked :: "string list"

definition posix_isabs :: "string \<Rightarrow> bool" where
  "posix_isabs p = (p \<noteq> [] \<and> hd p = CHR ''/'')"

definition posix_join :: "string \<Rightarrow> string \<Rightarrow> string" where
  "posix_join a b =
     (if posix_isabs b then b
      else if a = [] \<or> last a = CHR ''/'' then a @ b
      else a @ ''/'' @ b)"

definition posix_expand_tilde :: "posix_fs host \<Rightarrow> string \<Rightarrow> py_exception + string" where
  "posix_expand_tilde h p =
     (let name = takeWhile (\<lambda>c. c \<noteq> CHR ''/'') (tl p);
          rest = dropWhile (\<lambda>c. c \<noteq> CHR ''/'') (tl p)
      in if name = [] then
           (case map_of (os_environ h) ''HOME'' of
              None \<Rightarrow> Inr p
            | Some d \<Rightarrow>
                (let expanded = strip_chars (\<lambda>c. c = CHR ''/'') d @ rest
                 in Inr (if expanded = [] then ''/'' else expanded)))
         else if CHR 0x00 \<in> set name then Inl (Raised OtherException ''embedded null byte'')
         else Inr p)"

definition posix_abspath :: "posix_fs host \<Rightarrow> string \<Rightarrow> string" where
  "posix_abspath h p = (if posix_isabs p then p else posix_join (os_cwd h) p)"

definition posix_chdir_error :: "posix_fs host \<Rightarrow> string \<Rightarrow> py_exception option" where
  "posix_chdir_error h p =
     (if p \<in> set (locked (files h)) then
        Some (Raised OtherException (''[Errno 13] Permission denied: '' @ [squote] @ p @ [squote]))
      else None)"

definition posix_environ_error :: "string \<Rightarrow> string \<Rightarrow> py_exception option" where
  "posix_environ_error key val =
     (if CHR 0x00 \<in> set key \<union> set val then Some (Raised OtherException ''embedded null byte'')
      else if key = [] then Some (Raised OtherException ''[Errno 22] Invalid argument'')
      else None)"

definition posix :: "posix_fs platform" where
  "posix =
     \<lparr>expand_tilde = posix_expand_tilde,
      isabs = posix_isabs,
      path_join = posix_join,
      abspath = posix_abspath,
      isdir = (\<lambda>h p. p \<in> set (directories (files h))),
      chdir_error = posix_chdir_error,
      environ_error = posix_environ_error,
      passthrough = (\<lambda>b args t h. (Inr [], files h)),
      subprocess_run = (\<lambda>argv cwd h.
        (Inl (Raised FileNotFoundError ''[Errno 2] No such file or directory''), files h))\<rparr>"

definition interrupted :: "posix_fs platform" where
  "interrupted =
     posix\<lparr>subprocess_run := (\<lambda>argv cwd h. (Inl (Raised KeyboardInterrupt []), files h))\<rparr>"

definition home_host :: "posix_fs host" where
  "home_host =
     \<lparr>os_environ = [(''HOME'', ''/home/u''), (''USER'', ''u'')],
      os_cwd = ''/home/u'',
      files = \<lparr>directories = [''/'', ''/home'', ''/home/u'', ''/home/u/subdir'', ''/home/u/vault''],
               locked = [''/home/u/vault'']\<rparr>\<rparr>"

text \<open>A log of 21 entries, one more than the display shows.\<close>

definition hist21 :: "string list" where
  "hist21 = [''c1'', ''c2'', ''c3'', ''c4'', ''c5'', ''c6'', ''c7'', ''c8'', ''c9'', ''c10'',
     ''c11'', ''c12'', ''c13'', ''c14'', ''c15'', ''c16'', ''c17'', ''c18'', ''c19'', ''c20'', ''c21'']"

section \<open>Properties of the tokenizer\<close>

lemma strip_chars_empty_iff: "strip_chars p s = [] \<longleftrightarrow> (\<forall>c \<in> set s. p c)"
proof
  assume "strip_chars p s = []"
  then have "dropWhile p (rev (dropWhile p s)) = []"
    by (simp add: strip_chars_def)
  then have "\<forall>c \<in> set (dropWhile p s). p c"
    by simp
  moreover have "dropWhile p s \<noteq> [] \<Longrightarrow> \<not> p (hd (dropWhile p s))"
    by (rule hd_dropWhile)
  ultimately have "dropWhile p s = []"
    by (cases "dropWhile p s") auto
  then show "\<forall>c \<in> set s. p c"
    by simp
next
  assume "\<forall>c \<in> set s. p c"
  then show "strip_chars p s = []"
    unfolding strip_chars_def by (auto dest: set_dropWhileD)
qed

lemma strip_empty_iff: "strip s = [] \<longleftrightarrow> (\<forall>c \<in> set s. is_space c)"
  by (simp add: strip_def strip_chars_empty_iff)

lemma parse_loop_no_empty_token:
  "[] \<notin> set tokens \<Longrightarrow> [] \<notin> set (parse_loop cs tokens cur inq qc)"
  by (induction cs tokens cur inq qc rule: parse_loop.induct) auto

lemma parse_loop_unterminated:
  "q \<notin> set rest \<Longrightarrow>
   parse_loop rest tokens cur True (Some q) = (if cur @ rest = [] then tokens else tokens @ [cur @ rest])"
  by (induction rest arbitrary: cur) auto


lemmas eval_defs =
  parse_command_def strip_def strip_chars_def is_space_def dquote_def squote_def newline_def

text \<open>
  Claim C7. The tokenizer meets its test vector. A line made of whitespace only (the empty
  line included) gives no token; the line \<open>a b\<close> gives \<open>a\<close> and \<open>b\<close>; the line
  \<open>a "b c" d\<close> gives \<open>a\<close>, \<open>b c\<close> and \<open>d\<close>, the quotes being consumed; the line \<open>a "b\<close>
  with its unterminated quote gives \<open>a\<close> and \<open>b\<close>. In general, when the loop meets an
  opening quote that is never closed, everything after it joins the token under
  construction, which is flushed at the end of the line.
\<close>

theorem parse_command_test_vector:
  "((\<forall>c \<in> set line. is_space c) \<longrightarrow> parse_command line = []) \<and>
   parse_command ''a b'' = [''a'', ''b''] \<and>
   parse_command (''a '' @ [dquote] @ ''b c'' @ [dquote] @ '' d'') = [''a'', ''b c'', ''d''] \<and>
   parse_command (''a '' @ [dquote] @ ''b'') = [''a'', ''b''] \<and>
   ((q = dquote \<or> q = squote) \<and> q \<notin> set rest \<longrightarrow>
      parse_loop (q # rest) tokens cur False None =
        (if cur @ rest = [] then tokens else tokens @ [cur @ rest]))"
proof -
  have blank: "(\<forall>c \<in> set line. is_space c) \<longrightarrow> parse_command line = []"
    by (simp add: parse_command_def strip_empty_iff)
  have plain: "parse_command ''a b'' = [''a'', ''b'']"
    by (simp add: eval_defs)
  have quoted: "parse_command (''a '' @ [dquote] @ ''b c'' @ [dquote] @ '' d'') = [''a'', ''b c'', ''d'']"
    by (simp add: eval_defs)
  have unterminated: "parse_command (''a '' @ [dquote] @ ''b'') = [''a'', ''b'']"
    by (simp add: eval_defs)
  have open_quote: "(q = dquote \<or> q = squote) \<and> q \<notin> set rest \<longrightarrow>
      parse_loop (q # rest) tokens cur False None =
        (if cur @ rest = [] then tokens else tokens @ [cur @ rest])"
    using parse_loop_unterminated [of q rest tokens cur] by auto
  from blank plain quoted unterminated open_quote show ?thesis
    by blast
qed

theorem parse_command_test_vector_witness:
  "list_all is_space ''   '' \<and> parse_command ''   '' = [] \<and> parse_command [] = [] \<and>
   dquote \<notin> set ''b c'' \<and> parse_loop (dquote # ''b c'') [''a''] [] False None = [''a'', ''b c'']"
  using parse_command_test_vector [of "''   ''" dquote "''b c''" "[''a'']" "[]"]
    parse_command_test_vector [of "[]" dquote "''b c''" "[''a'']" "[]"]
  by (simp add: is_space_def dquote_def)

text \<open>
  Claim C8, as the code has it. No token that the tokenizer produces is the empty string,
  for any input line: a token is appended only when the buffer is not empty. An explicitly
  quoted empty string (two double quotes or two single quotes in a row, outside a quote)
  is consumed and leaves the loop variables as they were, so it gives no token of its own.
\<close>

theorem parse_command_no_empty_token:
  "[] \<notin> set (parse_command line) \<and>
   parse_loop (dquote # dquote # rest) tokens cur False None = parse_loop rest tokens cur False None \<and>
   parse_loop (squote # squote # rest) tokens cur False None = parse_loop rest tokens cur False None"
proof -
  have "[] \<notin> set (parse_command line)"
    using parse_loop_no_empty_token [of "[]" line "[]" False None]
    by (simp add: parse_command_def)
  then show ?thesis
    by simp
qed

text \<open>
  The claim C8 as stated fails on the line \<open>a "" b\<close>: the quoted empty string gives no
  empty token between \<open>a\<close> and \<open>b\<close>.
\<close>

theorem quoted_empty_string_counterexample:
  "parse_command (''a '' @ [dquote, dquote] @ '' b'') = [''a'', ''b''] \<and>
   parse_command (''a '' @ [dquote, dquote] @ '' b'') \<noteq> [''a'', [], ''b'']"
  by (simp add: eval_defs)

section \<open>Properties of dispatch\<close>

lemmas host_defs =
  posix_def home_host_def init_terminal_def posix_isabs_def posix_join_def posix_expand_tilde_def
  posix_abspath_def posix_chdir_error_def posix_environ_error_def expanduser_def

lemmas exec_defs =
  execute_command_def execute_body_def resolve_def builtin_commands_def builtin_table_def
  run_builtin_def execute_external_command_def

lemma resolve_alias:
  "map_of (aliases t) name = Some repl \<Longrightarrow>
   resolve t (name # args) =
     (case builtin_commands repl of Some b \<Rightarrow> Builtin b args | None \<Rightarrow> External repl args)"
  by (simp add: resolve_def)

lemma resolve_no_alias:
  "map_of (aliases t) name = None \<Longrightarrow>
   resolve t (name # args) =
     (case builtin_commands name of Some b \<Rightarrow> Builtin b args | None \<Rightarrow> External name args)"
  by (simp add: resolve_def)

lemma resolve_history [simp]: "resolve (t\<lparr>command_history := hist\<rparr>) tokens = resolve t tokens"
  by (simp add: resolve_def)

lemma parse_not_blank: "parse_command line \<noteq> [] \<Longrightarrow> strip line \<noteq> []"
  by (auto simp: parse_command_def)

lemma execute_body_tokens:
  assumes "parse_command line \<noteq> []"
  shows "execute_body P line t h =
    (case resolve t (parse_command line) of
       Builtin b args \<Rightarrow> run_builtin P b args (t\<lparr>command_history := command_history t @ [line]\<rparr>) h
     | External cmd args \<Rightarrow>
         (case execute_external_command P cmd args
                 (t\<lparr>command_history := command_history t @ [line]\<rparr>) h of
            (res, fs') \<Rightarrow> (res, t\<lparr>command_history := command_history t @ [line]\<rparr>, h\<lparr>files := fs'\<rparr>)))"
  using assms parse_not_blank [OF assms] by (simp add: execute_body_def Let_def)

lemma parse_ll: "parse_command ''ll /tmp extra'' = [''ll'', ''/tmp'', ''extra'']"
  by (simp add: eval_defs)

lemma parse_exit: "parse_command ''exit'' = [''exit'']"
  by (simp add: eval_defs)

lemma define_ll:
  "execute_command posix (''alias ll='' @ [squote] @ ''ls -l'' @ [squote]) (init_terminal home_host) home_host =
     (Inr [], (init_terminal home_host)
            \<lparr>command_history := [''alias ll='' @ [squote] @ ''ls -l'' @ [squote]],
             aliases := [(''ll'', ''ls -l'')]\<rparr>, home_host)"
  by (simp add: exec_defs eval_defs host_defs cmd_alias_def split_eq_def)

lemma define_exit_alias:
  "execute_command posix ''alias exit=echo'' (init_terminal home_host) home_host =
     (Inr [], (init_terminal home_host)
            \<lparr>command_history := [''alias exit=echo''], aliases := [(''exit'', ''echo'')]\<rparr>, home_host)"
  by (simp add: exec_defs eval_defs host_defs cmd_alias_def split_eq_def)

text \<open>
  Claim C1, as the code has it. When the head token of a line is an alias, the whole
  replacement text becomes the command name in one step: it is looked up in the table of
  built-ins as it is and is not split into words, and the handler that runs receives the
  argument tokens of the line unchanged. So with \<open>ll\<close> defined as \<open>ls -l\<close>, the line
  \<open>ll /tmp extra\<close> is run as a child process whose argument vector is \<open>ls -l\<close>, \<open>/tmp\<close>,
  \<open>extra\<close>, in the current directory of the session: the result of the line is the
  captured output of that process, or the text that \<open>ls -l\<close> was not found. With \<open>ll\<close>
  defined as \<open>ls\<close>, the line runs the handler of the built-in \<open>ls\<close> on \<open>/tmp\<close> and
  \<open>extra\<close>.
\<close>

theorem alias_substitution_single_level:
  "(parse_command line = name # args \<and> map_of (aliases t) name = Some repl \<longrightarrow>
      resolve t (parse_command line) =
        (case builtin_commands repl of Some b \<Rightarrow> Builtin b args | None \<Rightarrow> External repl args) \<and>
      execute_body P line t h =
        (case builtin_commands repl of
           Some b \<Rightarrow> run_builtin P b args (t\<lparr>command_history := command_history t @ [line]\<rparr>) h
         | None \<Rightarrow>
             (case execute_external_command P repl args
                     (t\<lparr>command_history := command_history t @ [line]\<rparr>) h of
                (res, fs') \<Rightarrow>
                  (res, t\<lparr>command_history := command_history t @ [line]\<rparr>, h\<lparr>files := fs'\<rparr>)))) \<and>
   (map_of (aliases t) ''ll'' = Some ''ls -l'' \<and>
    subprocess_run P [''ls -l'', ''/tmp'', ''extra''] (current_dir t) h = (Inr (out, []), fs) \<longrightarrow>
      execute_command P ''ll /tmp extra'' t h =
        (Inr (strip out), t\<lparr>command_history := command_history t @ [''ll /tmp extra'']\<rparr>,
         h\<lparr>files := fs\<rparr>)) \<and>
   (map_of (aliases t) ''ll'' = Some ''ls -l'' \<and>
    subprocess_run P [''ls -l'', ''/tmp'', ''extra''] (current_dir t) h =
      (Inl (Raised FileNotFoundError msg), fs) \<longrightarrow>
      execute_command P ''ll /tmp extra'' t h =
        (Inr (''Error: Command '' @ [squote] @ ''ls -l'' @ [squote] @ '' not found''),
         t\<lparr>command_history := command_history t @ [''ll /tmp extra'']\<rparr>, h\<lparr>files := fs\<rparr>)) \<and>
   (map_of (aliases t) ''ll'' = Some ''ls'' \<longrightarrow>
      execute_body P ''ll /tmp extra'' t h =
        (case passthrough P Ls [''/tmp'', ''extra'']
                (t\<lparr>command_history := command_history t @ [''ll /tmp extra'']\<rparr>) h of
           (res, fs') \<Rightarrow>
             (res, t\<lparr>command_history := command_history t @ [''ll /tmp extra'']\<rparr>,
              h\<lparr>files := fs'\<rparr>)))"
proof -
  have general: "parse_command line = name # args \<and> map_of (aliases t) name = Some repl \<longrightarrow>
      resolve t (parse_command line) =
        (case builtin_commands repl of Some b \<Rightarrow> Builtin b args | None \<Rightarrow> External repl args) \<and>
      execute_body P line t h =
        (case builtin_commands repl of
           Some b \<Rightarrow> run_builtin P b args (t\<lparr>command_history := command_history t @ [line]\<rparr>) h
         | None \<Rightarrow>
             (case execute_external_command P repl args
                     (t\<lparr>command_history := command_history t @ [line]\<rparr>) h of
                (res, fs') \<Rightarrow>
                  (res, t\<lparr>command_history := command_history t @ [line]\<rparr>, h\<lparr>files := fs'\<rparr>)))"
    for line name args repl
  proof (intro impI, elim conjE)
    assume tokens: "parse_command line = name # args"
      and aliased: "map_of (aliases t) name = Some repl"
    from tokens have "parse_command line \<noteq> []"
      by simp
    then show "resolve t (parse_command line) =
        (case builtin_commands repl of Some b \<Rightarrow> Builtin b args | None \<Rightarrow> External repl args) \<and>
      execute_body P line t h =
        (case builtin_commands repl of
           Some b \<Rightarrow> run_builtin P b args (t\<lparr>command_history := command_history t @ [line]\<rparr>) h
         | None \<Rightarrow>
             (case execute_external_command P repl args
                     (t\<lparr>command_history := command_history t @ [line]\<rparr>) h of
                (res, fs') \<Rightarrow>
                  (res, t\<lparr>command_history := command_history t @ [line]\<rparr>, h\<lparr>files := fs'\<rparr>)))"
      using tokens aliased by (simp add: execute_body_tokens resolve_alias split: option.splits)
  qed
  have not_builtin: "builtin_commands ''ls -l'' = None"
    by (simp add: builtin_commands_def builtin_table_def)
  have is_ls: "builtin_commands ''ls'' = Some Ls"
    by (simp add: builtin_commands_def builtin_table_def)
  have found: "map_of (aliases t) ''ll'' = Some ''ls -l'' \<and>
    subprocess_run P [''ls -l'', ''/tmp'', ''extra''] (current_dir t) h = (Inr (out, []), fs) \<longrightarrow>
      execute_command P ''ll /tmp extra'' t h =
        (Inr (strip out), t\<lparr>command_history := command_history t @ [''ll /tmp extra'']\<rparr>,
         h\<lparr>files := fs\<rparr>)"
    using general [of "''ll /tmp extra''" "''ll''" "[''/tmp'', ''extra'']" "''ls -l''"]
    by (simp add: parse_ll not_builtin execute_command_def execute_external_command_def)
  have not_found: "map_of (aliases t) ''ll'' = Some ''ls -l'' \<and>
    subprocess_run P [''ls -l'', ''/tmp'', ''extra''] (current_dir t) h =
      (Inl (Raised FileNotFoundError msg), fs) \<longrightarrow>
      execute_command P ''ll /tmp extra'' t h =
        (Inr (''Error: Command '' @ [squote] @ ''ls -l'' @ [squote] @ '' not found''),
         t\<lparr>command_history := command_history t @ [''ll /tmp extra'']\<rparr>, h\<lparr>files := fs\<rparr>)"
    using general [of "''ll /tmp extra''" "''ll''" "[''/tmp'', ''extra'']" "''ls -l''"]
    by (simp add: parse_ll not_builtin execute_command_def execute_external_command_def)
  have one_word: "map_of (aliases t) ''ll'' = Some ''ls'' \<longrightarrow>
      execute_body P ''ll /tmp extra'' t h =
        (case passthrough P Ls [''/tmp'', ''extra'']
                (t\<lparr>command_history := command_history t @ [''ll /tmp extra'']\<rparr>) h of
           (res, fs') \<Rightarrow>
             (res, t\<lparr>command_history := command_history t @ [''ll /tmp extra'']\<rparr>,
              h\<lparr>files := fs'\<rparr>))"
    using general [of "''ll /tmp extra''" "''ll''" "[''/tmp'', ''extra'']" "''ls''"]
    by (simp add: parse_ll is_ls run_builtin_def)
  from general [of line name args repl] found not_found one_word show ?thesis
    by blast
qed

theorem alias_substitution_single_level_witness:
  "execute_command posix ''ll /tmp extra''
     ((init_terminal home_host)\<lparr>aliases := [(''ll'', ''ls -l'')]\<rparr>) home_host =
     (Inr (''Error: Command '' @ [squote] @ ''ls -l'' @ [squote] @ '' not found''),
      (init_terminal home_host)\<lparr>command_history := [''ll /tmp extra''], aliases := [(''ll'', ''ls -l'')]\<rparr>,
      home_host) \<and>
   execute_command
     (posix\<lparr>subprocess_run := (\<lambda>argv cwd h. (Inr (join_str '' '' argv @ newline, []), files h))\<rparr>)
     ''ll /tmp extra'' ((init_terminal home_host)\<lparr>aliases := [(''ll'', ''ls -l'')]\<rparr>) home_host =
     (Inr ''ls -l /tmp extra'',
      (init_terminal home_host)\<lparr>command_history := [''ll /tmp extra''], aliases := [(''ll'', ''ls -l'')]\<rparr>,
      home_host) \<and>
   execute_body posix ''ll /tmp extra''
     ((init_terminal home_host)\<lparr>aliases := [(''ll'', ''ls'')]\<rparr>) home_host =
     (Inr [],
      (init_terminal home_host)\<lparr>command_history := [''ll /tmp extra''], aliases := [(''ll'', ''ls'')]\<rparr>,
      home_host)"
proof -
  let ?two = "(init_terminal home_host)\<lparr>aliases := [(''ll'', ''ls -l'')]\<rparr>"
  let ?one = "(init_terminal home_host)\<lparr>aliases := [(''ll'', ''ls'')]\<rparr>"
  let ?echoing = "posix\<lparr>subprocess_run :=
    (\<lambda>argv cwd h. (Inr (join_str '' '' argv @ newline, []), files h))\<rparr>"
  have two: "map_of (aliases ?two) ''ll'' = Some ''ls -l''"
    by (simp add: init_terminal_def)
  have one: "map_of (aliases ?one) ''ll'' = Some ''ls''"
    by (simp add: init_terminal_def)
  have absent: "subprocess_run posix [''ls -l'', ''/tmp'', ''extra''] (current_dir ?two) home_host =
      (Inl (Raised FileNotFoundError ''[Errno 2] No such file or directory''), files home_host)"
    by (simp add: posix_def)
  have present: "subprocess_run ?echoing [''ls -l'', ''/tmp'', ''extra''] (current_dir ?two) home_host =
      (Inr (''ls -l /tmp extra'' @ newline, []), files home_host)"
    by simp
  have stripped: "strip (''ls -l /tmp extra'' @ newline) = ''ls -l /tmp extra''"
    by (simp add: eval_defs)
  have relayed: "passthrough posix Ls [''/tmp'', ''extra''] t home_host = (Inr [], files home_host)" for t
    by (simp add: posix_def)
  note instance_absent = alias_substitution_single_level
    [of "''ll /tmp extra''" "''ll''" "[''/tmp'', ''extra'']" ?two "''ls -l''" posix home_host
      "[]" "files home_host" "''[Errno 2] No such file or directory''"]
  note instance_present = alias_substitution_single_level
    [of "''ll /tmp extra''" "''ll''" "[''/tmp'', ''extra'']" ?two "''ls -l''" ?echoing home_host
      "''ls -l /tmp extra'' @ newline" "files home_host" "[]"]
  note instance_one = alias_substitution_single_level
    [of "''ll /tmp extra''" "''ll''" "[''/tmp'', ''extra'']" ?one "''ls''" posix home_host
      "[]" "files home_host" "[]"]
  from instance_absent two absent
  have "execute_command posix ''ll /tmp extra'' ?two home_host =
      (Inr (''Error: Command '' @ [squote] @ ''ls -l'' @ [squote] @ '' not found''),
       ?two\<lparr>command_history := command_history ?two @ [''ll /tmp extra'']\<rparr>,
       home_host\<lparr>files := files home_host\<rparr>)"
    by blast
  moreover from instance_present two present
  have "execute_command ?echoing ''ll /tmp extra'' ?two home_host =
      (Inr (strip (''ls -l /tmp extra'' @ newline)),
       ?two\<lparr>command_history := command_history ?two @ [''ll /tmp extra'']\<rparr>,
       home_host\<lparr>files := files home_host\<rparr>)"
    by blast
  then have "execute_command ?echoing ''ll /tmp extra'' ?two home_host =
      (Inr ''ls -l /tmp extra'',
       ?two\<lparr>command_history := command_history ?two @ [''ll /tmp extra'']\<rparr>,
       home_host\<lparr>files := files home_host\<rparr>)"
    by (simp only: stripped)
  moreover from instance_one one
  have "execute_body posix ''ll /tmp extra'' ?one home_host =
      (case passthrough posix Ls [''/tmp'', ''extra'']
              (?one\<lparr>command_history := command_history ?one @ [''ll /tmp extra'']\<rparr>) home_host of
         (res, fs') \<Rightarrow>
           (res, ?one\<lparr>command_history := command_history ?one @ [''ll /tmp extra'']\<rparr>,
            home_host\<lparr>files := fs'\<rparr>))"
    by blast
  ultimately show ?thesis
    by (simp add: relayed init_terminal_def)
qed

text \<open>
  The claim C1 as stated fails in the session that the line \<open>alias ll='ls -l'\<close> leaves
  behind: \<open>ll /tmp extra\<close> does not reach the built-in \<open>ls\<close> with \<open>-l\<close>, \<open>/tmp\<close> and
  \<open>extra\<close>; it is run as the external command named \<open>ls -l\<close>, which the host does not
  find.
\<close>

theorem alias_ll_counterexample:
  "resolve (fst (snd (execute_command posix (''alias ll='' @ [squote] @ ''ls -l'' @ [squote])
                        (init_terminal home_host) home_host)))
     (parse_command ''ll /tmp extra'') = External ''ls -l'' [''/tmp'', ''extra''] \<and>
   resolve (fst (snd (execute_command posix (''alias ll='' @ [squote] @ ''ls -l'' @ [squote])
                        (init_terminal home_host) home_host)))
     (parse_command ''ll /tmp extra'') \<noteq> Builtin Ls [''-l'', ''/tmp'', ''extra''] \<and>
   fst (execute_command posix ''ll /tmp extra''
          (fst (snd (execute_command posix (''alias ll='' @ [squote] @ ''ls -l'' @ [squote])
                       (init_terminal home_host) home_host))) home_host) =
     Inr (''Error: Command '' @ [squote] @ ''ls -l'' @ [squote] @ '' not found'')"
  unfolding define_ll
  by (simp add: parse_ll exec_defs host_defs)

text \<open>
  Claim C2, as the code has it. The alias table is consulted before the table of
  built-ins, for \<open>exit\<close> as for every other name. In a session with no alias named
  \<open>exit\<close>, the line \<open>exit\<close> invokes the exit command and returns the sentinel \<open>EXIT\<close>; an
  alias named \<open>exit\<close> replaces it by whatever its replacement text names.
\<close>

theorem exit_unless_aliased:
  "(map_of (aliases t) ''exit'' = None \<longrightarrow>
      resolve t (parse_command ''exit'') = Builtin Exit [] \<and>
      fst (execute_command P ''exit'' t h) = Inr ''EXIT'') \<and>
   (map_of (aliases t) ''exit'' = Some repl \<longrightarrow>
      resolve t (parse_command ''exit'') =
        (case builtin_commands repl of Some b \<Rightarrow> Builtin b [] | None \<Rightarrow> External repl []))"
proof -
  have is_exit: "builtin_commands ''exit'' = Some Exit"
    by (simp add: builtin_commands_def builtin_table_def)
  have not_blank: "strip ''exit'' \<noteq> []"
    by (simp add: eval_defs)
  have free: "map_of (aliases t) ''exit'' = None \<longrightarrow>
      resolve t (parse_command ''exit'') = Builtin Exit [] \<and>
      fst (execute_command P ''exit'' t h) = Inr ''EXIT''"
  proof
    assume none: "map_of (aliases t) ''exit'' = None"
    then have route: "resolve t [''exit''] = Builtin Exit []"
      by (simp add: resolve_no_alias is_exit)
    then have "fst (execute_command P ''exit'' t h) = Inr ''EXIT''"
      by (simp add: execute_command_def execute_body_def parse_exit not_blank run_builtin_def
          cmd_exit_def)
    with route show "resolve t (parse_command ''exit'') = Builtin Exit [] \<and>
      fst (execute_command P ''exit'' t h) = Inr ''EXIT''"
      by (simp add: parse_exit)
  qed
  have taken: "map_of (aliases t) ''exit'' = Some repl \<longrightarrow>
      resolve t (parse_command ''exit'') =
        (case builtin_commands repl of Some b \<Rightarrow> Builtin b [] | None \<Rightarrow> External repl [])"
    by (simp add: parse_exit resolve_alias)
  from free taken show ?thesis
    by blast
qed

theorem exit_unless_aliased_witness:
  "map_of (aliases (init_terminal home_host)) ''exit'' = None \<and>
   resolve (init_terminal home_host) (parse_command ''exit'') = Builtin Exit [] \<and>
   fst (execute_command posix ''exit'' (init_terminal home_host) home_host) = Inr ''EXIT'' \<and>
   resolve ((init_terminal home_host)\<lparr>aliases := [(''exit'', ''echo'')]\<rparr>) (parse_command ''exit'') =
     Builtin Echo []"
  using exit_unless_aliased [of "init_terminal home_host" posix home_host "''echo''"]
    exit_unless_aliased [of "(init_terminal home_host)\<lparr>aliases := [(''exit'', ''echo'')]\<rparr>"
      posix home_host "''echo''"]
  by (simp add: init_terminal_def builtin_commands_def builtin_table_def)

text \<open>
  The claim C2 as stated fails in the session that the line \<open>alias exit=echo\<close> leaves
  behind: the line \<open>exit\<close> runs \<open>echo\<close> without arguments and returns the empty string, not
  the sentinel.
\<close>

theorem exit_alias_counterexample:
  "resolve (fst (snd (execute_command posix ''alias exit=echo'' (init_terminal home_host) home_host)))
     (parse_command ''exit'') = Builtin Echo [] \<and>
   fst (execute_command posix ''exit''
          (fst (snd (execute_command posix ''alias exit=echo'' (init_terminal home_host) home_host)))
          home_host) = Inr [] \<and>
   fst (execute_command posix ''exit''
          (fst (snd (execute_command posix ''alias exit=echo'' (init_terminal home_host) home_host)))
          home_host) \<noteq> Inr ''EXIT''"
  unfolding define_exit_alias
  by (simp add: exec_defs eval_defs host_defs cmd_echo_def)

section \<open>History and the catch-all boundary\<close>

lemma export_loop_history:
  "command_history (fst (snd (export_loop P args t h))) = command_history t"
  by (induction P args t h rule: export_loop.induct) (auto simp: Let_def split: option.splits)

lemma alias_loop_history: "command_history (snd (alias_loop args t)) = command_history t"
  by (induction args t rule: alias_loop.induct) simp_all

lemma unalias_loop_history: "command_history (snd (unalias_loop args t)) = command_history t"
  by (induction args t rule: unalias_loop.induct) simp_all

lemma cmd_cd_history: "command_history (fst (snd (cmd_cd P args t h))) = command_history t"
  by (simp add: cmd_cd_def Let_def split: option.splits sum.splits)

lemma run_builtin_history:
  "command_history (fst (snd (run_builtin P b args t h))) = command_history t"
  by (simp add: run_builtin_def cmd_export_def cmd_alias_def cmd_unalias_def export_loop_history
      alias_loop_history unalias_loop_history cmd_cd_history split_beta)

lemma execute_body_history:
  "command_history (fst (snd (execute_body P line t h))) =
     (if strip line = [] then command_history t else command_history t @ [line])"
  by (simp add: execute_body_def Let_def run_builtin_history split_beta split: route.splits)

lemma execute_command_state: "snd (execute_command P line t h) = snd (execute_body P line t h)"
  by (simp add: execute_command_def split_beta split: sum.splits)

lemma execute_command_history:
  "command_history (fst (snd (execute_command P line t h))) =
     (if strip line = [] then command_history t else command_history t @ [line])"
  by (simp add: execute_command_state execute_body_history)

lemma parse_history: "parse_command ''history'' = [''history'']"
  by (simp add: eval_defs)

text \<open>
  Claim C10. For every line with a character that is not whitespace, \<open>execute_command\<close>
  appends the line as it was given, with its leading and trailing blanks and before any
  alias is looked up, to the history, whatever happens afterwards: the history of the
  resulting session is the old one followed by the line, also when the command is
  unknown or an exception is raised. The append comes before dispatch: the \<open>history\<close>
  command already shows its own line as the last entry.
\<close>

theorem history_records_every_nonblank_line:
  "((\<exists>c \<in> set line. \<not> is_space c) \<longrightarrow>
      command_history (fst (snd (execute_command P line t h))) = command_history t @ [line]) \<and>
   (map_of (aliases t) ''history'' = None \<longrightarrow>
      fst (execute_command P ''history'' t h) =
        Inr (cmd_history (t\<lparr>command_history := command_history t @ [''history'']\<rparr>)))"
proof -
  have recorded: "(\<exists>c \<in> set line. \<not> is_space c) \<longrightarrow>
      command_history (fst (snd (execute_command P line t h))) = command_history t @ [line]"
    using strip_empty_iff [of line] by (auto simp: execute_command_history)
  have is_history: "builtin_commands ''history'' = Some History"
    by (simp add: builtin_commands_def builtin_table_def)
  have not_blank: "strip ''history'' \<noteq> []"
    by (simp add: eval_defs)
  have sees_itself: "map_of (aliases t) ''history'' = None \<longrightarrow>
      fst (execute_command P ''history'' t h) =
        Inr (cmd_history (t\<lparr>command_history := command_history t @ [''history'']\<rparr>))"
    by (simp add: execute_command_def execute_body_def parse_history not_blank resolve_no_alias
        is_history run_builtin_def Let_def)
  from recorded sees_itself show ?thesis
    by blast
qed

lemma fmt_row:
  "rjust 3 (show_nat (Suc 0)) = ''  1''" "rjust 3 (show_nat (Suc (Suc 0))) = ''  2''"
  by code_simp+

theorem history_records_every_nonblank_line_witness:
  "\<not> is_space (CHR ''n'') \<and>
   command_history (fst (snd (execute_command posix ''  nosuch arg ''
      ((init_terminal home_host)\<lparr>command_history := [''pwd'']\<rparr>) home_host))) =
     [''pwd'', ''  nosuch arg ''] \<and>
   fst (execute_command posix ''history''
      ((init_terminal home_host)\<lparr>command_history := [''pwd'']\<rparr>) home_host) =
     Inr (''  1 pwd'' @ newline @ ''  2 history'')"
  using history_records_every_nonblank_line
      [of "''  nosuch arg ''" posix "(init_terminal home_host)\<lparr>command_history := [''pwd'']\<rparr>" home_host]
  by (simp add: is_space_def init_terminal_def cmd_history_def history_rows_def fmt_row newline_def
      del: show_nat.simps)

lemma external_result:
  "fst (execute_external_command P cmd args t h) =
     (case fst (subprocess_run P (cmd # args) (current_dir t) h) of
        Inr (out, err) \<Rightarrow> Inr (strip (if err \<noteq> [] then out @ newline @ ''Error: '' @ err else out))
      | Inl (Raised TimeoutExpired msg) \<Rightarrow> Inr ''Error: Command timed out''
      | Inl (Raised FileNotFoundError msg) \<Rightarrow>
          Inr (''Error: Command '' @ [squote] @ cmd @ [squote] @ '' not found'')
      | Inl (Raised OtherException msg) \<Rightarrow> Inr (''Error: '' @ msg)
      | Inl (Raised KeyboardInterrupt msg) \<Rightarrow> Inl (Raised KeyboardInterrupt msg))"
  by (simp add: execute_external_command_def
      split: prod.splits sum.splits py_exception.splits exception_class.splits)

lemma external_only_interrupt:
  "fst (execute_external_command P cmd args t h) = Inl e \<Longrightarrow> \<not> is_Exception e"
  by (auto simp: execute_external_command_def
      split: prod.splits sum.splits py_exception.splits exception_class.splits)

lemma session_builtin_returns:
  "b \<in> {Pwd, Echo, Env, History, Clear, Exit, Help, Whoami, Alias, Unalias} \<Longrightarrow>
   \<not> isl (fst (run_builtin P b args t h))"
  by (auto simp: run_builtin_def split_beta)

lemma cmd_cd_raises:
  assumes "fst (cmd_cd P args t h) = Inl e"
  shows "cd_target P args t h = Inl e \<or>
    (\<exists>target. cd_target P args t h = Inr target \<and> isdir P h target \<and>
       chdir_error P h target = Some e \<and> \<not> is_Exception e)"
  using assms by (auto simp: cmd_cd_def Let_def split: sum.splits if_splits option.splits)

lemma boundary:
  "fst (execute_command P line t h) =
     (case fst (execute_body P line t h) of
        Inr out \<Rightarrow> Inr out
      | Inl e \<Rightarrow> if is_Exception e then Inr (''Error: '' @ str_exc e) else Inl e)"
  by (simp add: execute_command_def split_beta split: sum.splits)

text \<open>
  Claim C4, as the code has it. Tokenizing, alias lookup and dispatch raise nothing: a
  line without tokens gives the empty text. In the external step, a timeout, a program
  that is not found and any other exception of class \<open>Exception\<close> become the three error
  texts of \<open>execute_external_command\<close>, and the output of the child, with its standard
  error after the marker \<open>Error:\<close>, is returned stripped. Among the built-ins, those that
  only read or write the session never raise; \<open>cd\<close> raises only what the expansion of
  \<open>~\<close> raises, or an interrupt of \<open>os.chdir\<close>. Whatever exception of class \<open>Exception\<close>
  a built-in raises is returned as the text \<open>Error: \<close> with its message. The only
  exceptions that leave \<open>execute_command\<close> are those outside class \<open>Exception\<close>, that
  is, interrupts; the driving loop catches them, prints \<open>^C\<close> and goes on, as it goes on
  after every error text, so no exception ends the session loop.
\<close>

theorem dispatch_boundary:
  "(parse_command line = [] \<longrightarrow> fst (execute_command P line t h) = Inr []) \<and>
   (parse_command line \<noteq> [] \<and> resolve t (parse_command line) = External cmd args \<longrightarrow>
      fst (execute_command P line t h) =
        (case fst (subprocess_run P (cmd # args) (current_dir t) h) of
           Inr (out, err) \<Rightarrow>
             Inr (strip (if err \<noteq> [] then out @ newline @ ''Error: '' @ err else out))
         | Inl (Raised TimeoutExpired msg) \<Rightarrow> Inr ''Error: Command timed out''
         | Inl (Raised FileNotFoundError msg) \<Rightarrow>
             Inr (''Error: Command '' @ [squote] @ cmd @ [squote] @ '' not found'')
         | Inl (Raised OtherException msg) \<Rightarrow> Inr (''Error: '' @ msg)
         | Inl (Raised KeyboardInterrupt msg) \<Rightarrow> Inl (Raised KeyboardInterrupt msg))) \<and>
   (parse_command line \<noteq> [] \<and> resolve t (parse_command line) = Builtin b args \<longrightarrow>
      fst (execute_command P line t h) =
        (case fst (run_builtin P b args (t\<lparr>command_history := command_history t @ [line]\<rparr>) h) of
           Inr out \<Rightarrow> Inr out
         | Inl e \<Rightarrow> if is_Exception e then Inr (''Error: '' @ str_exc e) else Inl e)) \<and>
   (b \<in> {Pwd, Echo, Env, History, Clear, Exit, Help, Whoami, Alias, Unalias} \<longrightarrow>
      \<not> isl (fst (run_builtin P b args t h))) \<and>
   (fst (run_builtin P Cd args t h) = Inl e \<longrightarrow>
      cd_target P args t h = Inl e \<or>
      (\<exists>target. cd_target P args t h = Inr target \<and> isdir P h target \<and>
         chdir_error P h target = Some e \<and> \<not> is_Exception e)) \<and>
   (fst (execute_command P line t h) = Inl e \<longrightarrow> \<not> is_Exception e) \<and>
   (strip l \<noteq> [] \<and> fst (execute_command P (strip l) t h) = Inl e \<longrightarrow>
      run_loop P (l # ls) t h printed =
        run_loop P ls (fst (snd (execute_command P (strip l) t h)))
          (snd (snd (execute_command P (strip l) t h))) (printed @ [newline @ ''^C''])) \<and>
   (strip l \<noteq> [] \<and> fst (execute_command P (strip l) t h) = Inr (''Error: '' @ detail) \<longrightarrow>
      run_loop P (l # ls) t h printed =
        run_loop P ls (fst (snd (execute_command P (strip l) t h)))
          (snd (snd (execute_command P (strip l) t h))) (printed @ [''Error: '' @ detail]))"
proof -
  have no_tokens: "parse_command line = [] \<longrightarrow> fst (execute_command P line t h) = Inr []"
    by (simp add: boundary execute_body_def Let_def)
  have outside: "parse_command line \<noteq> [] \<and> resolve t (parse_command line) = External cmd args \<longrightarrow>
      fst (execute_command P line t h) =
        (case fst (subprocess_run P (cmd # args) (current_dir t) h) of
           Inr (out, err) \<Rightarrow>
             Inr (strip (if err \<noteq> [] then out @ newline @ ''Error: '' @ err else out))
         | Inl (Raised TimeoutExpired msg) \<Rightarrow> Inr ''Error: Command timed out''
         | Inl (Raised FileNotFoundError msg) \<Rightarrow>
             Inr (''Error: Command '' @ [squote] @ cmd @ [squote] @ '' not found'')
         | Inl (Raised OtherException msg) \<Rightarrow> Inr (''Error: '' @ msg)
         | Inl (Raised KeyboardInterrupt msg) \<Rightarrow> Inl (Raised KeyboardInterrupt msg))"
  proof (intro impI, elim conjE)
    assume tokens: "parse_command line \<noteq> []"
      and route: "resolve t (parse_command line) = External cmd args"
    let ?t1 = "t\<lparr>command_history := command_history t @ [line]\<rparr>"
    have "fst (execute_body P line t h) = fst (execute_external_command P cmd args ?t1 h)"
      using route by (simp add: execute_body_tokens [OF tokens] split_beta)
    moreover have "fst (execute_external_command P cmd args ?t1 h) = Inl x \<Longrightarrow> \<not> is_Exception x" for x
      by (rule external_only_interrupt)
    ultimately have "fst (execute_command P line t h) = fst (execute_external_command P cmd args ?t1 h)"
      by (auto simp: boundary split: sum.splits)
    then show "fst (execute_command P line t h) =
        (case fst (subprocess_run P (cmd # args) (current_dir t) h) of
           Inr (out, err) \<Rightarrow>
             Inr (strip (if err \<noteq> [] then out @ newline @ ''Error: '' @ err else out))
         | Inl (Raised TimeoutExpired msg) \<Rightarrow> Inr ''Error: Command timed out''
         | Inl (Raised FileNotFoundError msg) \<Rightarrow>
             Inr (''Error: Command '' @ [squote] @ cmd @ [squote] @ '' not found'')
         | Inl (Raised OtherException msg) \<Rightarrow> Inr (''Error: '' @ msg)
         | Inl (Raised KeyboardInterrupt msg) \<Rightarrow> Inl (Raised KeyboardInterrupt msg))"
      by (simp add: external_result)
  qed
  have inside: "parse_command line \<noteq> [] \<and> resolve t (parse_command line) = Builtin b args \<longrightarrow>
      fst (execute_command P line t h) =
        (case fst (run_builtin P b args (t\<lparr>command_history := command_history t @ [line]\<rparr>) h) of
           Inr out \<Rightarrow> Inr out
         | Inl e \<Rightarrow> if is_Exception e then Inr (''Error: '' @ str_exc e) else Inl e)"
    by (simp add: boundary execute_body_tokens)
  have quiet: "b \<in> {Pwd, Echo, Env, History, Clear, Exit, Help, Whoami, Alias, Unalias} \<longrightarrow>
      \<not> isl (fst (run_builtin P b args t h))"
    using session_builtin_returns [of b P args t h] by blast
  have from_cd: "fst (run_builtin P Cd args t h) = Inl e \<longrightarrow>
      cd_target P args t h = Inl e \<or>
      (\<exists>target. cd_target P args t h = Inr target \<and> isdir P h target \<and>
         chdir_error P h target = Some e \<and> \<not> is_Exception e)"
    using cmd_cd_raises [of P args t h e] by (simp add: run_builtin_def)
  have passes: "fst (execute_command P line t h) = Inl e \<longrightarrow> \<not> is_Exception e" for line
    by (auto simp: boundary split: sum.splits if_splits)
  have interrupted_line: "strip l \<noteq> [] \<and> fst (execute_command P (strip l) t h) = Inl e \<longrightarrow>
      run_loop P (l # ls) t h printed =
        run_loop P ls (fst (snd (execute_command P (strip l) t h)))
          (snd (snd (execute_command P (strip l) t h))) (printed @ [newline @ ''^C''])"
    using passes [of "strip l"] by (auto simp: split_beta split: sum.splits)
  have error_line: "strip l \<noteq> [] \<and> fst (execute_command P (strip l) t h) = Inr (''Error: '' @ detail) \<longrightarrow>
      run_loop P (l # ls) t h printed =
        run_loop P ls (fst (snd (execute_command P (strip l) t h)))
          (snd (snd (execute_command P (strip l) t h))) (printed @ [''Error: '' @ detail])"
    by (auto simp: split_beta split: sum.splits)
  from no_tokens outside inside quiet from_cd passes [of line] interrupted_line error_line
  show ?thesis
    by blast
qed

lemma raising_line:
  "fst (run_builtin posix Export [''=x'']
          ((init_terminal home_host)\<lparr>command_history := command_history (init_terminal home_host) @ [''export =x'']\<rparr>)
          home_host) =
     Inl (Raised OtherException ''[Errno 22] Invalid argument'')"
  by (simp add: run_builtin_def cmd_export_def split_eq_def Let_def host_defs)

lemma interrupted_child:
  "fst (subprocess_run interrupted (''sleep'' # [''100'']) (current_dir (init_terminal home_host)) home_host) =
     Inl (Raised KeyboardInterrupt [])"
  by (simp add: interrupted_def)

lemma missing_child:
  "fst (subprocess_run posix (''nosuch'' # [''arg'']) (current_dir (init_terminal home_host)) home_host) =
     Inl (Raised FileNotFoundError ''[Errno 2] No such file or directory'')"
  by (simp add: posix_def)

theorem dispatch_boundary_witness:
  "fst (execute_command posix ''export =x'' (init_terminal home_host) home_host) =
     Inr ''Error: [Errno 22] Invalid argument'' \<and>
   fst (execute_command posix ''nosuch arg'' (init_terminal home_host) home_host) =
     Inr (''Error: Command '' @ [squote] @ ''nosuch'' @ [squote] @ '' not found'') \<and>
   fst (execute_command interrupted ''sleep 100'' (init_terminal home_host) home_host) =
     Inl (Raised KeyboardInterrupt []) \<and>
   fst (run_loop posix [''export =x''] (init_terminal home_host) home_host []) =
     [''Error: [Errno 22] Invalid argument'', newline @ ''Goodbye!''] \<and>
   fst (run_loop interrupted [''sleep 100''] (init_terminal home_host) home_host []) =
     [newline @ ''^C'', newline @ ''Goodbye!'']"
proof -
  let ?t = "init_terminal home_host"
  have export_tokens: "parse_command ''export =x'' = [''export'', ''=x'']"
    and nosuch_tokens: "parse_command ''nosuch arg'' = [''nosuch'', ''arg'']"
    and sleep_tokens: "parse_command ''sleep 100'' = [''sleep'', ''100'']"
    by (simp_all add: eval_defs)
  have export_route: "resolve ?t (parse_command ''export =x'') = Builtin Export [''=x'']"
    and nosuch_route: "resolve ?t (parse_command ''nosuch arg'') = External ''nosuch'' [''arg'']"
    and sleep_route: "resolve ?t (parse_command ''sleep 100'') = External ''sleep'' [''100'']"
    by (simp_all add: export_tokens nosuch_tokens sleep_tokens resolve_def init_terminal_def
        builtin_commands_def builtin_table_def)
  have stripped: "strip ''export =x'' = ''export =x''" "strip ''sleep 100'' = ''sleep 100''"
    by (simp_all add: eval_defs)
  have "fst (execute_command posix ''export =x'' ?t home_host) =
      (case fst (run_builtin posix Export [''=x'']
                   (?t\<lparr>command_history := command_history ?t @ [''export =x'']\<rparr>) home_host) of
         Inr out \<Rightarrow> Inr out
       | Inl e \<Rightarrow> if is_Exception e then Inr (''Error: '' @ str_exc e) else Inl e)"
    using dispatch_boundary [where line = "''export =x''" and P = posix and t = ?t and h = home_host
        and b = Export and args = "[''=x'']"] export_route
    by (simp add: export_tokens)
  then have raised: "fst (execute_command posix ''export =x'' ?t home_host) =
      Inr (''Error: '' @ ''[Errno 22] Invalid argument'')"
    by (simp only: raising_line sum.case is_Exception.simps str_exc.simps) simp
  have "fst (execute_command posix ''nosuch arg'' ?t home_host) =
      (case fst (subprocess_run posix (''nosuch'' # [''arg'']) (current_dir ?t) home_host) of
         Inr (out, err) \<Rightarrow>
           Inr (strip (if err \<noteq> [] then out @ newline @ ''Error: '' @ err else out))
       | Inl (Raised TimeoutExpired msg) \<Rightarrow> Inr ''Error: Command timed out''
       | Inl (Raised FileNotFoundError msg) \<Rightarrow>
           Inr (''Error: Command '' @ [squote] @ ''nosuch'' @ [squote] @ '' not found'')
       | Inl (Raised OtherException msg) \<Rightarrow> Inr (''Error: '' @ msg)
       | Inl (Raised KeyboardInterrupt msg) \<Rightarrow> Inl (Raised KeyboardInterrupt msg))"
    using dispatch_boundary [where line = "''nosuch arg''" and P = posix and t = ?t and h = home_host
        and cmd = "''nosuch''" and args = "[''arg'']"] nosuch_route
    by (simp add: nosuch_tokens)
  then have not_found: "fst (execute_command posix ''nosuch arg'' ?t home_host) =
      Inr (''Error: Command '' @ [squote] @ ''nosuch'' @ [squote] @ '' not found'')"
    by (simp only: missing_child sum.case py_exception.case exception_class.case)
  have "fst (execute_command interrupted ''sleep 100'' ?t home_host) =
      (case fst (subprocess_run interrupted (''sleep'' # [''100'']) (current_dir ?t) home_host) of
         Inr (out, err) \<Rightarrow>
           Inr (strip (if err \<noteq> [] then out @ newline @ ''Error: '' @ err else out))
       | Inl (Raised TimeoutExpired msg) \<Rightarrow> Inr ''Error: Command timed out''
       | Inl (Raised FileNotFoundError msg) \<Rightarrow>
           Inr (''Error: Command '' @ [squote] @ ''sleep'' @ [squote] @ '' not found'')
       | Inl (Raised OtherException msg) \<Rightarrow> Inr (''Error: '' @ msg)
       | Inl (Raised KeyboardInterrupt msg) \<Rightarrow> Inl (Raised KeyboardInterrupt msg))"
    using dispatch_boundary [where line = "''sleep 100''" and P = interrupted and t = ?t
        and h = home_host and cmd = "''sleep''" and args = "[''100'']"] sleep_route
    by (simp add: sleep_tokens)
  then have interrupt: "fst (execute_command interrupted ''sleep 100'' ?t home_host) =
      Inl (Raised KeyboardInterrupt [])"
    by (simp only: interrupted_child sum.case py_exception.case exception_class.case)
  have "run_loop posix [''export =x''] ?t home_host [] =
      run_loop posix [] (fst (snd (execute_command posix ''export =x'' ?t home_host)))
        (snd (snd (execute_command posix ''export =x'' ?t home_host)))
        ([] @ [''Error: '' @ ''[Errno 22] Invalid argument''])"
    using dispatch_boundary [where l = "''export =x''" and P = posix and t = ?t and h = home_host
        and detail = "''[Errno 22] Invalid argument''" and ls = "[]" and printed = "[]"]
      raised
    unfolding stripped by blast
  then have after_error: "fst (run_loop posix [''export =x''] ?t home_host []) =
      [''Error: [Errno 22] Invalid argument'', newline @ ''Goodbye!'']"
    by simp
  have "run_loop interrupted [''sleep 100''] ?t home_host [] =
      run_loop interrupted [] (fst (snd (execute_command interrupted ''sleep 100'' ?t home_host)))
        (snd (snd (execute_command interrupted ''sleep 100'' ?t home_host)))
        ([] @ [newline @ ''^C''])"
    using dispatch_boundary [where l = "''sleep 100''" and P = interrupted and t = ?t
        and h = home_host and e = "Raised KeyboardInterrupt []" and ls = "[]" and printed = "[]"]
      interrupt
    unfolding stripped by blast
  then have after_interrupt: "fst (run_loop interrupted [''sleep 100''] ?t home_host []) =
      [newline @ ''^C'', newline @ ''Goodbye!'']"
    by simp
  from raised not_found interrupt after_error after_interrupt show ?thesis
    by simp
qed

text \<open>
  The claim C4 as stated fails when the user interrupts a child process: the exception
  is not of class \<open>Exception\<close>, passes both \<open>except\<close> clauses on its way, and
  \<open>execute_command\<close> returns no string.
\<close>

theorem interrupt_passes_boundary_counterexample:
  "execute_command interrupted ''sleep 100'' (init_terminal home_host) home_host =
     (Inl (Raised KeyboardInterrupt []),
      (init_terminal home_host)\<lparr>command_history := [''sleep 100'']\<rparr>, home_host) \<and>
   isl (fst (execute_command interrupted ''sleep 100'' (init_terminal home_host) home_host))"
  by (simp add: exec_defs eval_defs host_defs interrupted_def)

section \<open>The history display\<close>

lemma history_rows_length: "length (history_rows hist) = min 20 (length hist)"
proof -
  have "length hist - (length hist - 20) = min 20 (length hist)"
    by arith
  then show ?thesis
    by (simp add: history_rows_def Let_def del: upt_Suc)
qed

lemma history_rows_snd: "map snd (history_rows hist) = drop (length hist - 20) hist"
  by (simp add: history_rows_def Let_def map_snd_zip del: upt_Suc)

lemma history_rows_fst: "map fst (history_rows hist) = [1 ..< Suc (min 20 (length hist))]"
proof -
  have "length hist - (length hist - 20) = min 20 (length hist)"
    by arith
  then show ?thesis
    by (simp add: history_rows_def Let_def del: upt_Suc)
qed

lemma history_rows_nth:
  assumes "k < length (history_rows hist)"
  shows "history_rows hist ! k = (Suc k, hist ! (length hist - 20 + k))"
proof -
  from assms have k: "k < min 20 (length hist)"
    by (simp add: history_rows_length)
  have "fst (history_rows hist ! k) = map fst (history_rows hist) ! k"
    using assms by simp
  also have "\<dots> = Suc k"
    using k by (simp add: history_rows_fst del: upt_Suc)
  finally have first: "fst (history_rows hist ! k) = Suc k" .
  have "snd (history_rows hist ! k) = map snd (history_rows hist) ! k"
    using assms by simp
  also have "\<dots> = hist ! (length hist - 20 + k)"
    using k by (simp add: history_rows_snd)
  finally have "snd (history_rows hist ! k) = hist ! (length hist - 20 + k)" .
  with first show ?thesis
    by (simp add: prod_eq_iff)
qed

lemma history_rows_three: "history_rows [c1, c2, c3] = [(1, c1), (2, c2), (3, c3)]"
  by (simp add: history_rows_def upt_rec)

text \<open>
  Claim C5, as the code has it. The history display lists, oldest first, at most the 20
  most recent entries, and numbers them from 1 by their position in the displayed
  window: the row at position \<open>k\<close> (from 0) carries the number \<open>k + 1\<close> and the entry
  whose place in the whole log is \<open>length hist - 20 + k\<close>. While the log holds at most 20
  entries this number is the global 1-based sequence number; in particular, after \<open>c1\<close>,
  \<open>c2\<close>, \<open>c3\<close> the rows are \<open>(1, c1)\<close>, \<open>(2, c2)\<close>, \<open>(3, c3)\<close>. A line that is empty or
  made of whitespace only is never appended to the history.
\<close>

theorem history_rows_window:
  "length (history_rows hist) = min 20 (length hist) \<and>
   map snd (history_rows hist) = drop (length hist - 20) hist \<and>
   map fst (history_rows hist) = [1 ..< Suc (length (history_rows hist))] \<and>
   (k < length (history_rows hist) \<longrightarrow>
      history_rows hist ! k = (Suc k, hist ! (length hist - 20 + k))) \<and>
   (length hist \<le> 20 \<longrightarrow> history_rows hist = zip [1 ..< Suc (length hist)] hist) \<and>
   history_rows [c1, c2, c3] = [(1, c1), (2, c2), (3, c3)] \<and>
   ((\<forall>c \<in> set line. is_space c) \<longrightarrow>
      command_history (fst (snd (execute_command P line t h))) = command_history t)"
proof -
  have numbers: "map fst (history_rows hist) = [1 ..< Suc (length (history_rows hist))]"
    by (simp only: history_rows_fst history_rows_length)
  have short: "length hist \<le> 20 \<longrightarrow> history_rows hist = zip [1 ..< Suc (length hist)] hist"
    by (simp add: history_rows_def)
  have blank: "(\<forall>c \<in> set line. is_space c) \<longrightarrow>
      command_history (fst (snd (execute_command P line t h))) = command_history t"
    by (simp add: execute_command_history strip_empty_iff)
  from numbers short blank show ?thesis
    using history_rows_nth [of k hist]
    by (simp add: history_rows_length history_rows_snd history_rows_three)
qed

theorem history_rows_window_witness:
  "history_rows [''c1'', ''c2'', ''c3''] ! 1 = (2, ''c2'') \<and>
   history_rows [''c1'', ''c2'', ''c3''] ! 2 = (3, ''c3'') \<and>
   length [''c1'', ''c2'', ''c3''] \<le> 20 \<and>
   history_rows [''c1'', ''c2'', ''c3''] = [(1, ''c1''), (2, ''c2''), (3, ''c3'')] \<and>
   list_all is_space ''   '' \<and>
   command_history (fst (snd (execute_command posix ''   '' (init_terminal home_host) home_host))) = []"
  using history_rows_window [of "[''c1'', ''c2'', ''c3'']" 1 "''c1''" "''c2''" "''c3''" "''   ''" posix
      "init_terminal home_host" home_host]
    history_rows_window [of "[''c1'', ''c2'', ''c3'']" 2 "''c1''" "''c2''" "''c3''" "''   ''" posix
      "init_terminal home_host" home_host]
  by (simp add: is_space_def init_terminal_def)

text \<open>
  The claim C5 as stated fails once the log holds more than 20 entries: with 21 entries
  \<open>c1\<close> to \<open>c21\<close>, the entry \<open>c2\<close>, whose global sequence number is 2, is shown with the
  number 1, and \<open>c21\<close> with the number 20.
\<close>

theorem history_numbering_counterexample:
  "length hist21 = 21 \<and> hist21 ! (2 - 1) = ''c2'' \<and>
   history_rows hist21 ! 0 = (1, ''c2'') \<and>
   history_rows hist21 ! 0 \<noteq> (2, ''c2'') \<and>
   history_rows hist21 ! 19 = (20, ''c21'')"
  by (simp add: hist21_def history_rows_def upt_rec)

section \<open>Changing directory and the environment\<close>


lemma cd_target_history [simp]:
  "cd_target P args (t\<lparr>command_history := hist\<rparr>) h = cd_target P args t h"
  by (simp add: cd_target_def split: option.splits sum.splits)









text \<open>
  Claim C6 at a successful change of directory. After \<open>cd subdir\<close> the environment map
  of the session holds \<open>OLDPWD\<close>, and the environment of the process, which child
  processes inherit, does not; after \<open>export A=1\<close> both hold \<open>A\<close>.
\<close>

theorem cd_oldpwd_not_mirrored:
  "fst (execute_command posix ''cd subdir'' (init_terminal home_host) home_host) = Inr [] \<and>
   map_of (environment_vars
     (fst (snd (execute_command posix ''cd subdir'' (init_terminal home_host) home_host))))
     ''OLDPWD'' = Some ''/home/u'' \<and>
   map_of (os_environ
     (snd (snd (execute_command posix ''cd subdir'' (init_terminal home_host) home_host))))
     ''OLDPWD'' = None \<and>
   map_of (environment_vars
     (fst (snd (execute_command posix ''export A=1'' (init_terminal home_host) home_host))))
     ''A'' = Some ''1'' \<and>
   map_of (os_environ
     (snd (snd (execute_command posix ''export A=1'' (init_terminal home_host) home_host))))
     ''A'' = Some ''1''"
  by (simp add: exec_defs eval_defs host_defs cmd_cd_def cd_target_def cmd_export_def split_eq_def
      Let_def)

section \<open>The sentinel\<close>

text \<open>
  Claim C3 at the line \<open>echo EXIT\<close>. The line is dispatched to \<open>echo\<close>, not to the exit
  command, and \<open>execute_command\<close> returns exactly the sentinel \<open>EXIT\<close>. The driving loop
  takes it for the signal of the exit command: it prints \<open>Goodbye!\<close> instead of the text
  and stops, and the line after it is never read.
\<close>

theorem echo_exit_ends_session:
  "resolve (init_terminal home_host) (parse_command ''echo EXIT'') = Builtin Echo [''EXIT''] \<and>
   fst (execute_command posix ''echo EXIT'' (init_terminal home_host) home_host) = Inr ''EXIT'' \<and>
   run_loop posix [''echo EXIT'', ''pwd''] (init_terminal home_host) home_host [] =
     ([''Goodbye!''], (init_terminal home_host)\<lparr>command_history := [''echo EXIT'']\<rparr>, home_host, Exited) \<and>
   run_loop posix [''echo hello'', ''pwd''] (init_terminal home_host) home_host [] =
     ([''hello'', ''/home/u'', newline @ ''Goodbye!''],
      (init_terminal home_host)\<lparr>command_history := [''echo hello'', ''pwd'']\<rparr>, home_host, EndOfInput)"
  by (simp add: exec_defs eval_defs host_defs cmd_echo_def cmd_pwd_def)

end
